theory Spec2Isabelle
  imports Main "HOL-Library.Sublist"
begin

section \<open>The word counter of LaTeX Workshop (src/extras/counter.ts)\<close>

text \<open>
  The class \<open>Counter\<close> keeps a handful of fields, starts the external program
  \<open>texcount\<close>, reads what the program printed once it has exited, and shows the
  result in a status bar item. The class is event driven: its methods run as handlers
  of editor events, of child process events and of a timer. The model below has

  \<^item> the fields of the class as a record,
  \<^item> every method as a function from the fields to the new fields and the list of
    things the method did to the outside (log lines, notifications, a process spawn,
    a timer),
  \<^item> the event loop as a step function on a world that holds the fields, the child
    processes still running with the variables their handlers close over, the pending
    timers, and the promises already resolved.

  JavaScript strings are modelled as \<open>string\<close>.
\<close>

subsection \<open>Regular expressions and \<open>parseInt\<close>\<close>

definition is_digit :: "char \<Rightarrow> bool" where
  "is_digit c = (c \<in> set ''0123456789'')"

text \<open>
  Both regular expressions of \<open>runTeXCount\<close> have the shape \<open>/<literal>([0-9]*)/g\<close>.
  The expression object is created afresh by each evaluation of the literal, so
  \<open>exec\<close> searches from index 0: it returns the leftmost position at which the literal
  text occurs, and the group takes the longest run of digits behind it (the run may be
  empty, the star never fails). \<open>None\<close> is the \<open>null\<close> of \<open>exec\<close>, \<open>Some d\<close> a match
  whose group 1 is \<open>d\<close>.
\<close>

fun regex_exec :: "string \<Rightarrow> string \<Rightarrow> string option" where
  "regex_exec lit [] = (if lit = [] then Some [] else None)"
| "regex_exec lit (c # cs) =
     (if prefix lit (c # cs) then Some (takeWhile is_digit (drop (length lit) (c # cs)))
      else regex_exec lit cs)"

definition words_literal :: string where
  "words_literal = ''Words in text: ''"

definition floats_literal :: string where
  "floats_literal = ''Number of floats/tables/figures: ''"

definition exec_words :: "string \<Rightarrow> string option" where
  "exec_words stdout = regex_exec words_literal stdout"

definition exec_floats :: "string \<Rightarrow> string option" where
  "exec_floats stdout = regex_exec floats_literal stdout"

text \<open>
  \<open>parseInt\<close> is only applied to group 1 of the second expression, a possibly empty
  run of decimal digits. On such an argument it yields \<open>NaN\<close> (here \<open>None\<close>) for the
  empty string and the decimal value otherwise. The value is a double in JavaScript;
  the code only compares it with 0 and with 1, and rounding to the nearest double is
  monotone and exact on 0, 1 and 2, so both comparisons agree with those on the exact
  integer. A comparison with \<open>NaN\<close> is false.
\<close>

definition digit_val :: "char \<Rightarrow> nat" where
  "digit_val c = of_char c - 48"

definition decimal :: "string \<Rightarrow> nat" where
  "decimal ds = foldl (\<lambda>acc c. 10 * acc + digit_val c) 0 ds"

definition parseInt :: "string \<Rightarrow> nat option" where
  "parseInt s =
     (let ds = takeWhile is_digit s in if ds = [] then None else Some (decimal ds))"

definition js_gt :: "nat option \<Rightarrow> nat \<Rightarrow> bool" where
  "js_gt v k = (case v of None \<Rightarrow> False | Some n \<Rightarrow> k < n)"

subsection \<open>The fields of the class\<close>

record status_item =
  status_text :: string
  status_tooltip :: string
  status_visible :: bool

record counter =
  useDocker :: bool
  disableCountAfterSave :: bool
  autoRunEnabled :: bool
  autoRunInterval :: int
  commandArgs :: "string list"
  commandPath :: string
  texCountMessage :: string
  wordCount :: string
  status :: status_item

text \<open>The field initialisers of the class, with the status bar item as created.\<close>

definition new_counter :: counter where
  "new_counter =
     \<lparr> useDocker = False, disableCountAfterSave = False, autoRunEnabled = False,
       autoRunInterval = 0, commandArgs = [], commandPath = [],
       texCountMessage = [], wordCount = [],
       status = \<lparr> status_text = [], status_tooltip = [], status_visible = False \<rparr> \<rparr>"

text \<open>The five settings \<open>loadConfiguration\<close> reads for a scope.\<close>

record settings =
  texcount_autorun :: string
  texcount_interval :: int
  texcount_args :: "string list"
  texcount_path :: string
  docker_enabled :: bool

text \<open>
  What the class takes from Node and from the extension: the platform name, the root
  directory of the extension, the functions of the module \<open>path\<close>, whether
  \<open>fs.chmodSync\<close> throws on a path, and whether \<open>spawn\<close> throws on a command, an
  argument list and a working directory (as it does on an empty command, before any
  process exists).
\<close>

record node_env =
  platform :: string
  extensionRoot :: string
  path_resolve :: "string \<Rightarrow> string \<Rightarrow> string"
  path_basename :: "string \<Rightarrow> string"
  path_dirname :: "string \<Rightarrow> string"
  chmod_throws :: "string \<Rightarrow> bool"
  spawn_throws :: "string \<Rightarrow> string list \<Rightarrow> string \<Rightarrow> bool"

subsection \<open>Effects\<close>

type_synonym pid = nat

datatype err_info = ExitCode "int option" | SpawnError string

datatype effect =
    Log string
  | LogCommand string string "string list"
  | LogError string err_info string
  | ShowErrorMessage string
  | ShowInformationMessage string
  | Chmod string
  | Spawn pid string "string list" string
  | SetTimeout int
  | Throw string

fun is_spawn :: "effect \<Rightarrow> bool" where
  "is_spawn (Spawn p c a d) = True"
| "is_spawn e = False"

fun is_log :: "effect \<Rightarrow> bool" where
  "is_log (Log s) = True"
| "is_log e = False"

definition failed_message :: string where
  "failed_message = ''TeXCount failed. Please refer to LaTeX Workshop Output for details.''"

subsection \<open>The methods\<close>

definition loadConfiguration :: "counter \<Rightarrow> settings \<Rightarrow> counter" where
  "loadConfiguration st cfg =
     st\<lparr> autoRunEnabled := (texcount_autorun cfg = ''onSave''),
         autoRunInterval := texcount_interval cfg,
         commandArgs := texcount_args cfg,
         commandPath := texcount_path cfg,
         useDocker := docker_enabled cfg \<rparr>"

definition updateWordCount :: "counter \<Rightarrow> counter" where
  "updateWordCount st =
     (if wordCount st = []
      then st\<lparr> status := (status st)\<lparr> status_text := [], status_tooltip := [] \<rparr> \<rparr>
      else st\<lparr> status := (status st)\<lparr> status_text := wordCount st @ '' words'',
                                       status_tooltip := texCountMessage st \<rparr> \<rparr>)"

definition status_show :: "counter \<Rightarrow> counter" where
  "status_show st = st\<lparr> status := (status st)\<lparr> status_visible := True \<rparr> \<rparr>"

definition status_hide :: "counter \<Rightarrow> counter" where
  "status_hide st = st\<lparr> status := (status st)\<lparr> status_visible := False \<rparr> \<rparr>"

definition updateStatusVisibility :: "counter \<Rightarrow> counter \<times> effect list" where
  "updateStatusVisibility st =
     (if autoRunEnabled st then (status_show (updateWordCount st), [])
      else (status_hide st, []))"

text \<open>
  The synchronous part of \<open>runTeXCount\<close>, up to the call of \<open>spawn\<close>. It reads the
  fields and writes none of them. \<open>Inl\<close> is an exception, that of \<open>fs.chmodSync\<close> or
  that of \<open>spawn\<close> itself, thrown before any process exists; \<open>Inr\<close> carries the
  command, the arguments and the working directory of the process spawned, behind the
  effects up to there.
\<close>

definition resolve_command :: "node_env \<Rightarrow> counter \<Rightarrow> string \<times> effect list \<times> bool" where
  "resolve_command env st =
     (if useDocker st then
        (if platform env = ''win32''
         then (path_resolve env (extensionRoot env) ''./scripts/texcount.bat'',
               [Log ''Use Docker to invoke the command.''], False)
         else (let command = path_resolve env (extensionRoot env) ''./scripts/texcount''
               in (command, [Log ''Use Docker to invoke the command.'', Chmod command],
                   chmod_throws env command)))
      else (commandPath st, [], False))"

definition build_args :: "node_env \<Rightarrow> counter \<Rightarrow> string \<Rightarrow> bool \<Rightarrow> string list" where
  "build_args env st file merge =
     (let args = commandArgs st;
          args = (if merge \<and> ''-merge'' \<notin> set args then args @ [''-merge''] else args)
      in args @ [path_basename env file])"

definition runTeXCount_spawn ::
  "node_env \<Rightarrow> counter \<Rightarrow> pid \<Rightarrow> string \<Rightarrow> bool \<Rightarrow> effect list + (effect list \<times> string \<times> string list \<times> string)" where
  "runTeXCount_spawn env st p file merge =
     (case resolve_command env st of
        (command, effs, throws) \<Rightarrow>
          if throws then Inl (effs @ [Throw ''chmodSync''])
          else (let args = build_args env st file merge;
                    cwd = path_dirname env file
                in if spawn_throws env command args cwd
                   then Inl (effs @ [LogCommand ''Count words using command.'' command args,
                                     Throw ''spawn''])
                   else Inr (effs @ [LogCommand ''Count words using command.'' command args,
                                     Spawn p command args cwd],
                             command, args, cwd)))"

text \<open>The message of the exit handler, from group 1 of each match and \<open>merge\<close>.\<close>

definition float_msg :: "string option \<Rightarrow> string" where
  "float_msg floats =
     (case floats of
        None \<Rightarrow> []
      | Some f \<Rightarrow>
          if js_gt (parseInt f) 0
          then ''and '' @ f @ '' float'' @ (if js_gt (parseInt f) 1 then ''s'' else [])
               @ '' (tables, figures, etc.) ''
          else [])"

definition build_message :: "string \<Rightarrow> string option \<Rightarrow> bool \<Rightarrow> string" where
  "build_message w floats merge =
     ''There are '' @ w @ '' words '' @ float_msg floats @ ''in the ''
       @ (if merge then ''LaTeX project'' else ''opened LaTeX file'') @ ''.''"

text \<open>
  The handler of the child's \<open>exit\<close> event: the new fields, the effects, and whether
  \<open>resolve(true)\<close> was called. The exit code is \<open>None\<close> for the \<open>null\<close> Node passes
  when the child was killed by a signal.
\<close>

definition on_exit ::
  "counter \<Rightarrow> bool \<Rightarrow> int option \<Rightarrow> string \<Rightarrow> string \<Rightarrow> counter \<times> effect list \<times> bool" where
  "on_exit st merge exitCode stdout stderr =
     (if exitCode \<noteq> Some 0
      then (st, [LogError ''Cannot count words'' (ExitCode exitCode) stderr,
                 ShowErrorMessage failed_message], False)
      else (case exec_words stdout of
              None \<Rightarrow> (st, [], False)
            | Some w \<Rightarrow>
                (st\<lparr> wordCount := w,
                     texCountMessage := build_message w (exec_floats stdout) merge \<rparr>,
                 [], True)))"

text \<open>The handler of the child's \<open>error\<close> event.\<close>

definition on_error :: "counter \<Rightarrow> string \<Rightarrow> string \<Rightarrow> counter \<times> effect list" where
  "on_error st err stderr =
     (st, [LogError ''Cannot count words.'' (SpawnError err) stderr,
           ShowErrorMessage failed_message])"

subsection \<open>The event loop\<close>

text \<open>
  A child process that has not exited yet, with what its handlers close over: the
  parameter \<open>merge\<close>, the two accumulated outputs, and the callback that the caller of
  \<open>runTeXCount\<close> chained to the promise with \<open>then\<close>.
\<close>

datatype continuation = RefreshStatus | NotifyMessage

record proc =
  p_merge :: bool
  p_cont :: continuation
  p_stdout :: string
  p_stderr :: string

text \<open>
  \<open>timers\<close> are the pending timers of \<open>countOnSaveIfEnabled\<close> with their delays; all
  have the same callback. \<open>resolved\<close> holds the processes whose promise was resolved.
  Process identifiers are given out in order by \<open>next_pid\<close>.
\<close>

record world =
  self :: counter
  procs :: "pid \<rightharpoonup> proc"
  next_pid :: pid
  timers :: "int list"
  resolved :: "pid set"

definition start_run ::
  "node_env \<Rightarrow> world \<Rightarrow> string \<Rightarrow> bool \<Rightarrow> continuation \<Rightarrow> world \<times> effect list" where
  "start_run env w file merge k =
     (case runTeXCount_spawn env (self w) (next_pid w) file merge of
        Inl effs \<Rightarrow> (w, effs)
      | Inr (effs, command, args, cwd) \<Rightarrow>
          (w\<lparr> procs := (procs w)(next_pid w \<mapsto>
                 \<lparr> p_merge = merge, p_cont = k, p_stdout = [], p_stderr = [] \<rparr>),
              next_pid := Suc (next_pid w) \<rparr>, effs))"

definition countOnSaveIfEnabled :: "node_env \<Rightarrow> world \<Rightarrow> string \<Rightarrow> world \<times> effect list" where
  "countOnSaveIfEnabled env w file =
     (if \<not> autoRunEnabled (self w) then (w, [])
      else if disableCountAfterSave (self w)
      then (w, [Log ''Auto texcount is temporarily disabled during a second.''])
      else (let w1 = w\<lparr> self := (self w)\<lparr> disableCountAfterSave := True \<rparr> \<rparr>;
                w2 = w1\<lparr> timers := timers w1 @ [autoRunInterval (self w1)] \<rparr>
            in case start_run env w2 file True RefreshStatus of
                 (w3, effs) \<Rightarrow>
                   (w3, [Log (''Auto texcount started on saving file '' @ file @ '' .''),
                         SetTimeout (autoRunInterval (self w1))] @ effs)))"

definition count :: "node_env \<Rightarrow> world \<Rightarrow> string \<Rightarrow> bool \<Rightarrow> world \<times> effect list" where
  "count env w file merge = start_run env w file merge NotifyMessage"

definition run_continuation :: "continuation \<Rightarrow> counter \<Rightarrow> counter \<times> effect list" where
  "run_continuation k st =
     (case k of
        RefreshStatus \<Rightarrow> (updateWordCount st, [])
      | NotifyMessage \<Rightarrow> (st, [ShowInformationMessage (texCountMessage st)]))"

text \<open>
  The events the class has handlers for. \<open>ConfigChange affects cfg\<close> is a change of
  the configuration, \<open>affects\<close> saying whether it touches the settings of the counter
  and \<open>cfg\<close> the settings then in force; \<open>EditorChange (Some (tex, cfg))\<close> is a switch
  to an editor whose document is a TeX document or not, \<open>EditorChange None\<close> a switch
  to no editor. \<open>Save\<close> and \<open>Count\<close> are the two public methods. The remaining events
  come from a child process and from the timer.
\<close>

datatype event =
    ConfigChange bool settings
  | EditorChange "(bool \<times> settings) option"
  | Save string
  | Count string bool
  | ProcStdout pid string
  | ProcStderr pid string
  | ProcError pid string
  | ProcExit pid "int option"
  | TimerFire nat

definition remove_nth :: "nat \<Rightarrow> 'a list \<Rightarrow> 'a list" where
  "remove_nth i xs = take i xs @ drop (Suc i) xs"

definition proc_exit :: "world \<Rightarrow> pid \<Rightarrow> int option \<Rightarrow> world \<times> effect list" where
  "proc_exit w p exitCode =
     (case procs w p of
        None \<Rightarrow> (w, [])
      | Some pr \<Rightarrow>
          (case on_exit (self w) (p_merge pr) exitCode (p_stdout pr) (p_stderr pr) of
             (st, effs, res) \<Rightarrow>
               if res then
                 (case run_continuation (p_cont pr) st of
                    (st', effs') \<Rightarrow>
                      (w\<lparr> self := st', procs := (procs w)(p := None),
                          resolved := insert p (resolved w) \<rparr>, effs @ effs'))
               else (w\<lparr> self := st, procs := (procs w)(p := None) \<rparr>, effs)))"

fun step :: "node_env \<Rightarrow> world \<Rightarrow> event \<Rightarrow> world \<times> effect list" where
  "step env w (ConfigChange affects cfg) =
     (if affects
      then (case updateStatusVisibility (loadConfiguration (self w) cfg) of
              (st, effs) \<Rightarrow> (w\<lparr> self := st \<rparr>, effs))
      else (w, []))"
| "step env w (EditorChange e) =
     (case e of
        Some (True, cfg) \<Rightarrow>
          (case updateStatusVisibility (loadConfiguration (self w) cfg) of
             (st, effs) \<Rightarrow> (w\<lparr> self := st \<rparr>, effs))
      | _ \<Rightarrow> (w\<lparr> self := status_hide (self w) \<rparr>, []))"
| "step env w (Save file) = countOnSaveIfEnabled env w file"
| "step env w (Count file merge) = count env w file merge"
| "step env w (ProcStdout p chunk) =
     (case procs w p of
        None \<Rightarrow> (w, [])
      | Some pr \<Rightarrow> (w\<lparr> procs := (procs w)(p \<mapsto> pr\<lparr> p_stdout := p_stdout pr @ chunk \<rparr>) \<rparr>, []))"
| "step env w (ProcStderr p chunk) =
     (case procs w p of
        None \<Rightarrow> (w, [])
      | Some pr \<Rightarrow> (w\<lparr> procs := (procs w)(p \<mapsto> pr\<lparr> p_stderr := p_stderr pr @ chunk \<rparr>) \<rparr>, []))"
| "step env w (ProcError p err) =
     (case procs w p of
        None \<Rightarrow> (w, [])
      | Some pr \<Rightarrow>
          (case on_error (self w) err (p_stderr pr) of
             (st, effs) \<Rightarrow> (w\<lparr> self := st \<rparr>, effs)))"
| "step env w (ProcExit p exitCode) = proc_exit w p exitCode"
| "step env w (TimerFire i) =
     (if i < length (timers w)
      then (w\<lparr> self := (self w)\<lparr> disableCountAfterSave := False \<rparr>,
              timers := remove_nth i (timers w) \<rparr>, [])
      else (w, []))"

fun run :: "node_env \<Rightarrow> world \<Rightarrow> event list \<Rightarrow> world" where
  "run env w [] = w"
| "run env w (e # es) = run env (fst (step env w e)) es"

text \<open>
  The constructor: load the configuration, update the visibility of the status item,
  register the handlers. No process runs and no timer is pending.
\<close>

definition init_world :: "settings \<Rightarrow> world" where
  "init_world cfg =
     \<lparr> self = fst (updateStatusVisibility (loadConfiguration new_counter cfg)),
       procs = Map.empty, next_pid = 0, timers = [], resolved = {} \<rparr>"

text \<open>
  A concrete environment for examples: a POSIX host. \<open>path.basename\<close> drops trailing
  slashes and returns what follows the last remaining slash. \<open>path.dirname\<close> scans the
  path from its end down to index 1, skips trailing slashes and then the last
  component, and cuts the path at the slash it meets; with no such slash the result is
  \<open>/\<close> for a path that starts with a slash and \<open>.\<close> otherwise, and a cut at index 1 of
  a path that starts with a slash gives \<open>//\<close>. \<open>spawn\<close> throws on an empty command.
\<close>

definition posix_basename :: "string \<Rightarrow> string" where
  "posix_basename p =
     rev (takeWhile (\<lambda>c. c \<noteq> CHR ''/'') (dropWhile (\<lambda>c. c = CHR ''/'') (rev p)))"

definition posix_dirname :: "string \<Rightarrow> string" where
  "posix_dirname p =
     (let hasRoot = (p \<noteq> [] \<and> hd p = CHR ''/'');
          r = dropWhile (\<lambda>c. c \<noteq> CHR ''/'') (dropWhile (\<lambda>c. c = CHR ''/'') (rev p))
      in if p = [] then ''.''
         else if length r < 2 then (if hasRoot then ''/'' else ''.'')
         else if hasRoot \<and> length r = 2 then ''//''
         else rev (tl r))"

definition posix_env :: node_env where
  "posix_env =
     \<lparr> platform = ''linux'', extensionRoot = ''/ext'',
       path_resolve = (\<lambda>a b. a @ ''/'' @ drop 2 b),
       path_basename = posix_basename, path_dirname = posix_dirname,
       chmod_throws = (\<lambda>p. False),
       spawn_throws = (\<lambda>command args cwd. command = []) \<rparr>"

subsection \<open>Notions used in the statements\<close>

text \<open>
  The float clause in the words of the specification,
  \<open>and <M> float(s) (tables, figures, etc.)\<close>, in its singular and its plural form,
  \<open><M>\<close> being the digits read from the output.
\<close>

definition spec_float_clause :: "string \<Rightarrow> bool \<Rightarrow> string" where
  "spec_float_clause m plural =
     ''and '' @ m @ '' float'' @ (if plural then ''s'' else []) @ '' (tables, figures, etc.)''"

text \<open>Three characters that tell the messages with and without a clause apart.\<close>

definition marks :: "char \<Rightarrow> bool" where
  "marks c = (c \<in> set ''as('')"

text \<open>An output of \<open>texcount\<close> used in the examples.\<close>

definition sample_stdout :: string where
  "sample_stdout = ''Words in text: 100\<newline>Number of floats/tables/figures: 3\<newline>''"

definition sample_message :: string where
  "sample_message =
     ''There are 100 words and 3 floats (tables, figures, etc.) in the opened LaTeX file.''"

text \<open>
  The argument list in the words of the specification: a copy of the configured
  arguments, \<open>-merge\<close> appended if \<open>merge\<close> is true and \<open>-merge\<close> is not among
  them, the base name of the file last.
\<close>

definition spec_args :: "node_env \<Rightarrow> string list \<Rightarrow> string \<Rightarrow> bool \<Rightarrow> string list" where
  "spec_args env configured file merge =
     configured @ (if merge \<and> ''-merge'' \<notin> set configured then [''-merge''] else [])
       @ [path_basename env file]"

fun is_timer :: "event \<Rightarrow> bool" where
  "is_timer (TimerFire i) = True"
| "is_timer e = False"

text \<open>
  Process identifiers in a world reached from the constructor: a running process and
  a resolved promise have an identifier already given out, and no running process has
  its promise resolved. \<open>gone p\<close> says that process \<open>p\<close> has exited with its promise
  unresolved. \<open>frame\<close> bounds what one step does to the three components.
\<close>

definition pids_ok :: "world \<Rightarrow> bool" where
  "pids_ok w =
     (\<forall>p. (procs w p \<noteq> None \<longrightarrow> p < next_pid w \<and> p \<notin> resolved w) \<and>
          (p \<in> resolved w \<longrightarrow> p < next_pid w))"

definition gone :: "pid \<Rightarrow> world \<Rightarrow> bool" where
  "gone p w = (p < next_pid w \<and> procs w p = None \<and> p \<notin> resolved w)"

definition frame :: "world \<Rightarrow> world \<Rightarrow> bool" where
  "frame w w' =
     ((next_pid w' = next_pid w \<or> next_pid w' = Suc (next_pid w)) \<and>
      (\<forall>p. (procs w' p \<noteq> None \<longrightarrow>
               procs w p \<noteq> None \<or> (p = next_pid w \<and> next_pid w' = Suc (next_pid w))) \<and>
           (p \<in> resolved w' \<longrightarrow>
               p \<in> resolved w \<or> (procs w p \<noteq> None \<and> procs w' p = None))))"

text \<open>
  Worlds used in the examples: settings with auto-run on and off and settings with an
  empty path of the program, the fields after
  loading the former, the world after a manual count of a file has started, the same
  after the child has printed a line without a count, the world after a save has
  started a count, and the world after the child of the manual count has printed the
  sample output.
\<close>

definition sample_cfg :: settings where
  "sample_cfg =
     \<lparr> texcount_autorun = ''onSave'', texcount_interval = 1000, texcount_args = [''-inc''],
       texcount_path = ''texcount'', docker_enabled = False \<rparr>"

definition manual_cfg :: settings where
  "manual_cfg = sample_cfg\<lparr> texcount_autorun := ''never'' \<rparr>"

definition nopath_cfg :: settings where
  "nopath_cfg = sample_cfg\<lparr> texcount_path := [] \<rparr>"

definition sample_file :: string where
  "sample_file = ''/home/u/doc/main.tex''"

definition autorun_counter :: counter where
  "autorun_counter = loadConfiguration new_counter sample_cfg"

definition counting :: world where
  "counting = run posix_env (init_world sample_cfg) [Count sample_file False]"

definition silent :: world where
  "silent = fst (step posix_env counting (ProcStdout 0 ''File: main.tex''))"

definition saved :: world where
  "saved = fst (countOnSaveIfEnabled posix_env (init_world sample_cfg) sample_file)"

definition printed :: world where
  "printed = fst (step posix_env counting (ProcStdout 0 sample_stdout))"

section \<open>Properties\<close>

subsection \<open>Auxiliary facts\<close>

lemma regex_exec_digits: "regex_exec lit s = Some d \<Longrightarrow> \<forall>c\<in>set d. is_digit c"
  by (induction s) (auto split: if_splits dest: set_takeWhileD)

lemma sublist_filter: "sublist xs ys \<Longrightarrow> sublist (filter P xs) (filter P ys)"
  unfolding sublist_def by (metis filter_append)

lemma filter_marks_digits: "\<forall>c\<in>set d. is_digit c \<Longrightarrow> filter marks d = []"
  by (induction d) (auto simp: marks_def is_digit_def)

lemma marks_clause:
  assumes "\<forall>c\<in>set f. is_digit c"
  shows "filter marks (spec_float_clause f True) = ''aas(ass''"
    and "filter marks (spec_float_clause f False) = ''aa(ass''"
  using filter_marks_digits [OF assms]
  by (simp_all add: spec_float_clause_def marks_def)

lemma marks_message:
  assumes "\<forall>c\<in>set w. is_digit c"
  shows "filter marks (build_message w fl merge) = ''as'' @ filter marks (float_msg fl) @ ''a''"
  using filter_marks_digits [OF assms]
  by (simp add: build_message_def marks_def)

lemma marks_float_msg:
  assumes "\<forall>c\<in>set f. is_digit c"
  shows "filter marks (float_msg (Some f)) =
           (if js_gt (parseInt f) 0
            then (if js_gt (parseInt f) 1 then ''aas(ass'' else ''aa(ass'') else [])"
  using filter_marks_digits [OF assms]
  by (simp add: float_msg_def marks_def)

lemma message_has_clause:
  assumes pos: "js_gt (parseInt f) 0"
  shows "sublist (spec_float_clause f (js_gt (parseInt f) 1)) (build_message w (Some f) merge)"
proof -
  have "build_message w (Some f) merge =
          (''There are '' @ w @ '' words '') @ spec_float_clause f (js_gt (parseInt f) 1)
            @ ('' in the '' @ (if merge then ''LaTeX project'' else ''opened LaTeX file'') @ ''.'')"
    using pos by (simp add: build_message_def float_msg_def spec_float_clause_def)
  then show ?thesis
    by (metis sublist_appendI)
qed

lemma message_has_words: "sublist (w @ '' words'') (build_message w fl merge)"
proof -
  have "build_message w fl merge =
          ''There are '' @ (w @ '' words'') @ ('' '' @ float_msg fl @ ''in the ''
             @ (if merge then ''LaTeX project'' else ''opened LaTeX file'') @ ''.'')"
    by (simp add: build_message_def)
  then show ?thesis
    by (metis sublist_appendI)
qed

lemma plural_not_in_plain: "\<not> sublist ''aas(ass'' ''asa''"
  by code_simp

lemma singular_not_in_plain: "\<not> sublist ''aa(ass'' ''asa''"
  by code_simp

lemma plural_not_in_singular: "\<not> sublist ''aas(ass'' ''asaa(assa''"
  by code_simp

lemma singular_not_in_plural: "\<not> sublist ''aa(ass'' ''asaas(assa''"
  by code_simp

lemma sample_words: "exec_words sample_stdout = Some ''100''"
  by (simp add: sample_stdout_def exec_words_def words_literal_def is_digit_def)

lemma sample_floats: "exec_floats sample_stdout = Some ''3''"
  by (simp add: sample_stdout_def exec_floats_def floats_literal_def is_digit_def)

lemma sample_parse: "parseInt ''3'' = Some 3"
  by (simp add: parseInt_def is_digit_def decimal_def digit_val_def)

lemma sample_exit:
  "on_exit st False (Some 0) sample_stdout err =
     (st\<lparr> wordCount := ''100'', texCountMessage := sample_message \<rparr>, [], True)"
  by (simp add: on_exit_def sample_words sample_floats build_message_def float_msg_def
      sample_parse js_gt_def sample_message_def)

lemma regex_exec_at_start:
  "lit \<noteq> [] \<Longrightarrow> regex_exec lit (lit @ rest) = Some (takeWhile is_digit rest)"
  by (cases lit) simp_all

lemma takeWhile_no_digit: "rest = [] \<or> \<not> is_digit (hd rest) \<Longrightarrow> takeWhile is_digit rest = []"
  by (cases rest) auto

lemma start_run_no_flag:
  "start_run env w file merge k = (w', effs) \<Longrightarrow> self w' = self w \<and> timers w' = timers w"
  by (auto simp: start_run_def split: sum.splits prod.splits)

lemma start_run_cases:
  assumes "start_run env w file merge k = (w', effs)"
  shows "self w' = self w \<and>
         ((\<exists>pre. effs = pre @ [LogCommand ''Count words using command.''
                                 (fst (resolve_command env (self w)))
                                 (spec_args env (commandArgs (self w)) file merge),
                               Spawn (next_pid w) (fst (resolve_command env (self w)))
                                 (spec_args env (commandArgs (self w)) file merge)
                                 (path_dirname env file)] \<and>
                   (\<forall>e\<in>set pre. \<not> is_spawn e) \<and>
                   \<not> snd (snd (resolve_command env (self w))) \<and>
                   \<not> spawn_throws env (fst (resolve_command env (self w)))
                        (spec_args env (commandArgs (self w)) file merge)
                        (path_dirname env file)) \<or>
          (w' = w \<and> (\<forall>e\<in>set effs. \<not> is_spawn e) \<and>
           (snd (snd (resolve_command env (self w))) \<or>
            spawn_throws env (fst (resolve_command env (self w)))
              (spec_args env (commandArgs (self w)) file merge)
              (path_dirname env file))))"
proof -
  obtain c pre t where rc: "resolve_command env (self w) = (c, pre, t)"
    by (cases "resolve_command env (self w)")
  then have pre: "\<forall>e\<in>set pre. \<not> is_spawn e"
    by (auto simp: resolve_command_def Let_def split: if_splits)
  have args: "build_args env (self w) file merge = spec_args env (commandArgs (self w)) file merge"
    by (simp add: build_args_def spec_args_def Let_def)
  show ?thesis
  proof (cases "t \<or> spawn_throws env c (spec_args env (commandArgs (self w)) file merge)
                       (path_dirname env file)")
    case True
    with assms rc have "w' = w"
      and "effs = pre @ [Throw ''chmodSync''] \<or>
           effs = pre @ [LogCommand ''Count words using command.'' c
                           (spec_args env (commandArgs (self w)) file merge), Throw ''spawn'']"
      by (auto simp: start_run_def runTeXCount_spawn_def Let_def args split: if_splits)
    with pre have "w' = w" and "\<forall>e\<in>set effs. \<not> is_spawn e"
      by auto
    with True rc show ?thesis by simp
  next
    case False
    with assms rc have "self w' = self w"
      "effs = pre @ [LogCommand ''Count words using command.'' c
                       (spec_args env (commandArgs (self w)) file merge),
                     Spawn (next_pid w) c (spec_args env (commandArgs (self w)) file merge)
                       (path_dirname env file)]"
      by (auto simp: start_run_def runTeXCount_spawn_def Let_def args)
    with pre False rc show ?thesis by auto
  qed
qed

lemma frame_same:
  "procs w' = procs w \<Longrightarrow> next_pid w' = next_pid w \<Longrightarrow> resolved w' = resolved w \<Longrightarrow> frame w w'"
  by (simp add: frame_def)

lemma start_run_frame: "start_run env w file merge k = (w', effs) \<Longrightarrow> frame w w'"
  by (auto simp: start_run_def frame_def split: sum.splits prod.splits)

lemma save_frame: "countOnSaveIfEnabled env w file = (w', effs) \<Longrightarrow> frame w w'"
proof -
  assume a: "countOnSaveIfEnabled env w file = (w', effs)"
  show ?thesis
  proof (cases "\<not> autoRunEnabled (self w) \<or> disableCountAfterSave (self w)")
    case True
    with a have "w' = w" by (auto simp: countOnSaveIfEnabled_def split: if_splits)
    then show ?thesis by (simp add: frame_def)
  next
    case False
    define w2 where "w2 = w\<lparr> self := (self w)\<lparr> disableCountAfterSave := True \<rparr>,
                            timers := timers w @ [autoRunInterval (self w)] \<rparr>"
    obtain w3 effs3 where r: "start_run env w2 file True RefreshStatus = (w3, effs3)"
      by (cases "start_run env w2 file True RefreshStatus")
    from a False r have "w' = w3"
      by (simp add: countOnSaveIfEnabled_def Let_def w2_def)
    moreover have "frame w2 w3" using r by (rule start_run_frame)
    ultimately show ?thesis by (simp add: frame_def w2_def)
  qed
qed

lemma proc_exit_frame: "proc_exit w q c = (w', effs) \<Longrightarrow> frame w w'"
  by (auto simp: proc_exit_def frame_def split: option.splits prod.splits if_splits)

lemma step_frame:
  assumes "step env w e = (w', effs)"
  shows "frame w w'"
proof (cases e)
  case (ConfigChange a cfg)
  with assms show ?thesis
    by (intro frame_same) (auto split: if_splits prod.splits)
next
  case (EditorChange ed)
  with assms show ?thesis
    by (intro frame_same) (auto split: option.splits prod.splits bool.splits)
next
  case (Save fl)
  with assms show ?thesis by (simp add: save_frame)
next
  case (Count fl merge)
  with assms show ?thesis by (simp add: count_def start_run_frame)
next
  case (ProcStdout q chunk)
  with assms show ?thesis
    by (auto simp: frame_def split: option.splits if_splits)
next
  case (ProcStderr q chunk)
  with assms show ?thesis
    by (auto simp: frame_def split: option.splits if_splits)
next
  case (ProcError q err)
  with assms show ?thesis
    by (intro frame_same) (auto simp: on_error_def split: option.splits)
next
  case (ProcExit q c)
  with assms show ?thesis by (simp add: proc_exit_frame)
next
  case (TimerFire i)
  with assms show ?thesis
    by (intro frame_same) (auto split: if_splits)
qed

lemma frame_gone:
  assumes "frame w w'" and "gone p w"
  shows "gone p w'"
proof -
  from assms(1) have n: "next_pid w' = next_pid w \<or> next_pid w' = Suc (next_pid w)"
    and a: "procs w' p \<noteq> None \<longrightarrow>
              procs w p \<noteq> None \<or> (p = next_pid w \<and> next_pid w' = Suc (next_pid w))"
    and b: "p \<in> resolved w' \<longrightarrow> p \<in> resolved w \<or> (procs w p \<noteq> None \<and> procs w' p = None)"
    unfolding frame_def by blast+
  from assms(2) have g: "p < next_pid w" "procs w p = None" "p \<notin> resolved w"
    unfolding gone_def by blast+
  from n g(1) have "p < next_pid w'" by arith
  moreover from a g have "procs w' p = None" by auto
  moreover from b g have "p \<notin> resolved w'" by auto
  ultimately show ?thesis unfolding gone_def by blast
qed

lemma frame_pids_ok:
  assumes "frame w w'" and "pids_ok w"
  shows "pids_ok w'"
  unfolding pids_ok_def
proof (intro allI)
  fix p
  from assms(1) have n: "next_pid w' = next_pid w \<or> next_pid w' = Suc (next_pid w)"
    and a: "procs w' p \<noteq> None \<longrightarrow>
              procs w p \<noteq> None \<or> (p = next_pid w \<and> next_pid w' = Suc (next_pid w))"
    and b: "p \<in> resolved w' \<longrightarrow> p \<in> resolved w \<or> (procs w p \<noteq> None \<and> procs w' p = None)"
    unfolding frame_def by blast+
  from assms(2) have c: "procs w p \<noteq> None \<longrightarrow> p < next_pid w \<and> p \<notin> resolved w"
    and d: "p \<in> resolved w \<longrightarrow> p < next_pid w"
    unfolding pids_ok_def by blast+
  have 1: "procs w' p \<noteq> None \<longrightarrow> p < next_pid w'"
    using n a c by auto
  have 2: "procs w' p \<noteq> None \<longrightarrow> p \<notin> resolved w'"
    using a b c d by auto
  have 3: "p \<in> resolved w' \<longrightarrow> p < next_pid w'"
    using n b c d by auto
  show "(procs w' p \<noteq> None \<longrightarrow> p < next_pid w' \<and> p \<notin> resolved w') \<and>
        (p \<in> resolved w' \<longrightarrow> p < next_pid w')"
    using 1 2 3 by blast
qed

lemma run_gone: "gone p w \<Longrightarrow> gone p (run env w es)"
proof (induction es arbitrary: w)
  case Nil
  then show ?case by simp
next
  case (Cons e es)
  have "frame w (fst (step env w e))"
    by (rule step_frame [of env w e _ "snd (step env w e)"]) simp
  then have "gone p (fst (step env w e))"
    using Cons.prems by (rule frame_gone)
  then show ?case
    using Cons.IH by simp
qed

lemma run_pids_ok: "pids_ok w \<Longrightarrow> pids_ok (run env w es)"
proof (induction es arbitrary: w)
  case Nil
  then show ?case by simp
next
  case (Cons e es)
  have "frame w (fst (step env w e))"
    by (rule step_frame [of env w e _ "snd (step env w e)"]) simp
  then have "pids_ok (fst (step env w e))"
    using Cons.prems by (rule frame_pids_ok)
  then show ?case
    using Cons.IH by simp
qed

lemma init_pids_ok: "pids_ok (init_world cfg)"
  by (simp add: pids_ok_def init_world_def)

lemma reachable_pids_ok: "pids_ok (run env (init_world cfg) es)"
  by (rule run_pids_ok [OF init_pids_ok])

lemma exit_unresolved_gone:
  assumes ok: "pids_ok w" and live: "procs w p = Some pr"
    and st: "proc_exit w p exitCode = (w', effs)"
    and un: "snd (snd (on_exit (self w) (p_merge pr) exitCode (p_stdout pr) (p_stderr pr))) = False"
  shows "gone p w'"
proof -
  from ok live have "p < next_pid w" "p \<notin> resolved w"
    unfolding pids_ok_def by auto
  moreover from st live un have "next_pid w' = next_pid w" "procs w' p = None" "resolved w' = resolved w"
    by (auto simp: proc_exit_def split: prod.splits if_splits)
  ultimately show ?thesis by (simp add: gone_def)
qed

lemma init_fields:
  "wordCount (self (init_world cfg)) = []" "texCountMessage (self (init_world cfg)) = []"
  by (simp_all add: init_world_def updateStatusVisibility_def loadConfiguration_def new_counter_def
      status_show_def status_hide_def updateWordCount_def)

lemma init_sample:
  "self (init_world sample_cfg) =
     \<lparr> useDocker = False, disableCountAfterSave = False, autoRunEnabled = True,
       autoRunInterval = 1000, commandArgs = [''-inc''], commandPath = ''texcount'',
       texCountMessage = [], wordCount = [],
       status = \<lparr> status_text = [], status_tooltip = [], status_visible = True \<rparr> \<rparr>"
  "procs (init_world sample_cfg) = Map.empty" "next_pid (init_world sample_cfg) = 0"
  "timers (init_world sample_cfg) = []" "resolved (init_world sample_cfg) = {}"
  by (simp_all add: init_world_def sample_cfg_def loadConfiguration_def new_counter_def
      updateStatusVisibility_def updateWordCount_def status_show_def)

lemma init_nopath:
  "self (init_world nopath_cfg) =
     \<lparr> useDocker = False, disableCountAfterSave = False, autoRunEnabled = True,
       autoRunInterval = 1000, commandArgs = [''-inc''], commandPath = [],
       texCountMessage = [], wordCount = [],
       status = \<lparr> status_text = [], status_tooltip = [], status_visible = True \<rparr> \<rparr>"
  by (simp add: init_world_def nopath_cfg_def sample_cfg_def loadConfiguration_def
      new_counter_def updateStatusVisibility_def updateWordCount_def status_show_def)

lemma init_next_pid: "next_pid (init_world cfg) = 0"
  by (simp add: init_world_def)

lemma sample_spawn: "spawn_throws posix_env command args cwd = (command = [])"
  by (simp add: posix_env_def)

lemma sample_paths:
  "path_basename posix_env sample_file = ''main.tex''"
  "path_dirname posix_env sample_file = ''/home/u/doc''"
  by (simp_all add: posix_env_def sample_file_def posix_basename_def posix_dirname_def)

lemma sample_start:
  "snd (start_run posix_env (init_world sample_cfg) sample_file True NotifyMessage) =
      [LogCommand ''Count words using command.'' ''texcount'' [''-inc'', ''-merge'', ''main.tex''],
       Spawn 0 ''texcount'' [''-inc'', ''-merge'', ''main.tex''] ''/home/u/doc'']"
  by (simp add: start_run_def runTeXCount_spawn_def resolve_command_def build_args_def
      init_sample sample_paths sample_spawn Let_def)

lemma counting_eval:
  "self counting = self (init_world sample_cfg)"
  "procs counting = [0 \<mapsto> \<lparr> p_merge = False, p_cont = NotifyMessage, p_stdout = [], p_stderr = [] \<rparr>]"
  "next_pid counting = 1" "timers counting = []" "resolved counting = {}"
  by (simp_all add: counting_def count_def start_run_def runTeXCount_spawn_def
      resolve_command_def init_sample sample_spawn Let_def)

lemma silent_eval:
  "self silent = self (init_world sample_cfg)"
  "procs silent = [0 \<mapsto> \<lparr> p_merge = False, p_cont = NotifyMessage, p_stdout = ''File: main.tex'', p_stderr = [] \<rparr>]"
  by (simp_all add: silent_def counting_eval)

lemma silent_reach:
  "silent = run posix_env (init_world sample_cfg) [Count sample_file False, ProcStdout 0 ''File: main.tex'']"
  by (simp add: silent_def counting_def)

lemma saved_eval:
  "self saved = (self (init_world sample_cfg))\<lparr> disableCountAfterSave := True \<rparr>"
  "timers saved = [1000]"
  "procs saved = [0 \<mapsto> \<lparr> p_merge = True, p_cont = RefreshStatus, p_stdout = [], p_stderr = [] \<rparr>]"
  "next_pid saved = 1" "resolved saved = {}"
  by (simp_all add: saved_def countOnSaveIfEnabled_def start_run_def runTeXCount_spawn_def
      resolve_command_def init_sample sample_spawn Let_def)

lemma printed_eval:
  "self printed = self (init_world sample_cfg)"
  "procs printed = [0 \<mapsto> \<lparr> p_merge = False, p_cont = NotifyMessage, p_stdout = sample_stdout, p_stderr = [] \<rparr>]"
  by (simp_all add: printed_def counting_eval)

lemma printed_exit:
  "step posix_env printed (ProcExit 0 (Some 0)) =
     (printed\<lparr> self := (self printed)\<lparr> wordCount := ''100'', texCountMessage := sample_message \<rparr>,
               procs := (procs printed)(0 := None),
               resolved := insert 0 (resolved printed) \<rparr>,
      [ShowInformationMessage sample_message])"
  by (simp add: proc_exit_def printed_eval sample_exit run_continuation_def)

subsection \<open>The message\<close>

text \<open>
  C1. When the child exits with code 0 and both patterns match the output, \<open>w\<close> being
  the digits of the word count and \<open>f\<close> the digits of the float count, of value \<open>M\<close>:
  the stored message contains \<open><w> words\<close>; it contains the float clause
  \<open>and <f> float(s) (tables, figures, etc.)\<close> exactly when \<open>M > 0\<close>; the clause reads
  \<open>float\<close> exactly when \<open>M = 1\<close> and \<open>floats\<close> exactly when \<open>M > 1\<close>.
\<close>

theorem message_counts:
  assumes words: "exec_words stdout = Some w"
    and floats: "exec_floats stdout = Some f"
    and M: "parseInt f = Some M"
    and run: "on_exit st merge (Some 0) stdout stderr = (st', effs, res)"
  shows "sublist (w @ '' words'') (texCountMessage st') \<and>
         ((sublist (spec_float_clause f False) (texCountMessage st') \<or>
           sublist (spec_float_clause f True) (texCountMessage st')) \<longleftrightarrow> 0 < M) \<and>
         (sublist (spec_float_clause f False) (texCountMessage st') \<longleftrightarrow> M = 1) \<and>
         (sublist (spec_float_clause f True) (texCountMessage st') \<longleftrightarrow> 1 < M)"
proof -
  have msg: "texCountMessage st' = build_message w (Some f) merge"
    using words floats run by (auto simp: on_exit_def)
  have dw: "\<forall>c\<in>set w. is_digit c"
    using words regex_exec_digits unfolding exec_words_def by blast
  have df: "\<forall>c\<in>set f. is_digit c"
    using floats regex_exec_digits unfolding exec_floats_def by blast
  have gt0: "js_gt (parseInt f) 0 \<longleftrightarrow> 0 < M" and gt1: "js_gt (parseInt f) 1 \<longleftrightarrow> 1 < M"
    using M by (simp_all add: js_gt_def)
  have fm: "filter marks (build_message w (Some f) merge) =
              (if 0 < M then (if 1 < M then ''asaas(assa'' else ''asaa(assa'') else ''asa'')"
    using marks_message [OF dw, of "Some f" merge] marks_float_msg [OF df] gt0 gt1 by simp
  have sg: "sublist (spec_float_clause f False) (build_message w (Some f) merge) \<longleftrightarrow> M = 1"
  proof
    assume "sublist (spec_float_clause f False) (build_message w (Some f) merge)"
    then have "sublist ''aa(ass'' (filter marks (build_message w (Some f) merge))"
      using sublist_filter [of _ _ marks] marks_clause(2) [OF df] by metis
    then show "M = 1"
      using fm singular_not_in_plain singular_not_in_plural
      by (cases "0 < M"; cases "1 < M") auto
  next
    assume "M = 1"
    then show "sublist (spec_float_clause f False) (build_message w (Some f) merge)"
      using message_has_clause [of f w merge] gt0 gt1 by simp
  qed
  have pl: "sublist (spec_float_clause f True) (build_message w (Some f) merge) \<longleftrightarrow> 1 < M"
  proof
    assume "sublist (spec_float_clause f True) (build_message w (Some f) merge)"
    then have "sublist ''aas(ass'' (filter marks (build_message w (Some f) merge))"
      using sublist_filter [of _ _ marks] marks_clause(1) [OF df] by metis
    then show "1 < M"
      using fm plural_not_in_plain plural_not_in_singular
      by (cases "0 < M"; cases "1 < M") auto
  next
    assume "1 < M"
    then show "sublist (spec_float_clause f True) (build_message w (Some f) merge)"
      using message_has_clause [of f w merge] gt0 gt1 by simp
  qed
  have any: "(sublist (spec_float_clause f False) (build_message w (Some f) merge) \<or>
              sublist (spec_float_clause f True) (build_message w (Some f) merge)) \<longleftrightarrow> 0 < M"
    unfolding sg pl by arith
  show ?thesis
    unfolding msg using message_has_words sg pl any by blast
qed

theorem message_counts_witness:
  "exec_words sample_stdout = Some ''100'' \<and> exec_floats sample_stdout = Some ''3'' \<and>
   parseInt ''3'' = Some 3 \<and>
   sublist ''100 words'' sample_message \<and>
   sublist ''and 3 floats (tables, figures, etc.)'' sample_message \<and>
   \<not> sublist ''and 3 float (tables, figures, etc.)'' sample_message"
  using message_counts [OF sample_words sample_floats sample_parse sample_exit]
    sample_words sample_floats sample_parse
  by (simp add: spec_float_clause_def)

text \<open>
  C2. When the child exits with code 0 and the word pattern matches, the stored message
  ends with \<open>in the LaTeX project.\<close> if \<open>merge\<close> is true and with
  \<open>in the opened LaTeX file.\<close> if it is false.
\<close>

theorem message_ending:
  assumes "exec_words stdout = Some w"
    and "on_exit st merge (Some 0) stdout stderr = (st', effs, res)"
  shows "(merge \<longrightarrow> suffix ''in the LaTeX project.'' (texCountMessage st')) \<and>
         (\<not> merge \<longrightarrow> suffix ''in the opened LaTeX file.'' (texCountMessage st'))"
proof -
  have msg: "texCountMessage st' = build_message w (exec_floats stdout) merge"
    using assms by (auto simp: on_exit_def)
  have "build_message w fl True =
          (''There are '' @ w @ '' words '' @ float_msg fl) @ ''in the LaTeX project.''" for fl
    by (simp add: build_message_def)
  moreover have "build_message w fl False =
          (''There are '' @ w @ '' words '' @ float_msg fl) @ ''in the opened LaTeX file.''" for fl
    by (simp add: build_message_def)
  ultimately show ?thesis
    unfolding msg by (metis (full_types) suffixI)
qed

theorem message_ending_witness:
  "exec_words sample_stdout = Some ''100'' \<and>
   suffix ''in the opened LaTeX file.'' sample_message"
  using message_ending [OF sample_words sample_exit] sample_words
  by simp

subsection \<open>The status bar item\<close>

text \<open>
  C9. \<open>updateWordCount\<close>: if the stored word count is the empty string, the text and
  the tooltip of the status item become the empty string; otherwise the text becomes
  the word count followed by \<open> words\<close> and the tooltip the stored message. Nothing
  else changes.
\<close>

theorem updateWordCount_display:
  "(wordCount st = [] \<longrightarrow>
      status_text (status (updateWordCount st)) = [] \<and>
      status_tooltip (status (updateWordCount st)) = []) \<and>
   (wordCount st \<noteq> [] \<longrightarrow>
      status_text (status (updateWordCount st)) = wordCount st @ '' words'' \<and>
      status_tooltip (status (updateWordCount st)) = texCountMessage st) \<and>
   status_visible (status (updateWordCount st)) = status_visible (status st) \<and>
   updateWordCount st\<lparr> status := status st \<rparr> = st"
  by (simp add: updateWordCount_def)

theorem updateWordCount_display_witness:
  "wordCount new_counter = [] \<and>
   status_text (status (updateWordCount new_counter)) = [] \<and>
   status_tooltip (status (updateWordCount new_counter)) = [] \<and>
   wordCount (new_counter\<lparr> wordCount := ''100'', texCountMessage := sample_message \<rparr>) \<noteq> [] \<and>
   status_text (status (updateWordCount
     (new_counter\<lparr> wordCount := ''100'', texCountMessage := sample_message \<rparr>))) = ''100 words'' \<and>
   status_tooltip (status (updateWordCount
     (new_counter\<lparr> wordCount := ''100'', texCountMessage := sample_message \<rparr>))) = sample_message"
  using updateWordCount_display [of new_counter]
    updateWordCount_display
      [of "new_counter\<lparr> wordCount := ''100'', texCountMessage := sample_message \<rparr>"]
  by (simp add: new_counter_def)

subsection \<open>Starting the program\<close>

text \<open>
  C8. The argument list given to the spawned process is the configured arguments,
  followed by \<open>-merge\<close> exactly when \<open>merge\<close> is true and \<open>-merge\<close> is not among
  them, followed by the base name of the file; the field \<open>commandArgs\<close> is left as it
  was. Every process spawned gets this list, the resolved command and the directory of
  the file. A process is spawned exactly when neither \<open>chmodSync\<close> nor \<open>spawn\<close>
  throws; when one of them throws, nothing is spawned and no process is registered.
\<close>

theorem spawn_arguments:
  assumes "start_run env w file merge k = (w', effs)"
  shows "commandArgs (self w') = commandArgs (self w) \<and>
         (\<forall>p c a d. Spawn p c a d \<in> set effs \<longrightarrow>
            p = next_pid w \<and> c = fst (resolve_command env (self w)) \<and>
            a = spec_args env (commandArgs (self w)) file merge \<and>
            d = path_dirname env file) \<and>
         (Spawn (next_pid w) (fst (resolve_command env (self w)))
              (spec_args env (commandArgs (self w)) file merge) (path_dirname env file)
            \<in> set effs \<longleftrightarrow>
          \<not> snd (snd (resolve_command env (self w))) \<and>
          \<not> spawn_throws env (fst (resolve_command env (self w)))
               (spec_args env (commandArgs (self w)) file merge) (path_dirname env file)) \<and>
         (snd (snd (resolve_command env (self w))) \<or>
          spawn_throws env (fst (resolve_command env (self w)))
            (spec_args env (commandArgs (self w)) file merge) (path_dirname env file)
            \<longrightarrow> w' = w \<and> filter is_spawn effs = [])"
proof -
  let ?c = "fst (resolve_command env (self w))"
  let ?a = "spec_args env (commandArgs (self w)) file merge"
  let ?d = "path_dirname env file"
  let ?t = "snd (snd (resolve_command env (self w))) \<or> spawn_throws env ?c ?a ?d"
  from start_run_cases [OF assms] have s: "self w' = self w"
    and d: "(\<exists>pre. effs = pre @ [LogCommand ''Count words using command.'' ?c ?a,
                                  Spawn (next_pid w) ?c ?a ?d] \<and>
                   (\<forall>e\<in>set pre. \<not> is_spawn e) \<and> \<not> ?t) \<or>
            (w' = w \<and> (\<forall>e\<in>set effs. \<not> is_spawn e) \<and> ?t)"
    by blast+
  from d show ?thesis
  proof
    assume "\<exists>pre. effs = pre @ [LogCommand ''Count words using command.'' ?c ?a,
                                  Spawn (next_pid w) ?c ?a ?d] \<and>
                   (\<forall>e\<in>set pre. \<not> is_spawn e) \<and> \<not> ?t"
    then obtain pre where e: "effs = pre @ [LogCommand ''Count words using command.'' ?c ?a,
                                  Spawn (next_pid w) ?c ?a ?d]"
      and pre: "\<forall>e\<in>set pre. \<not> is_spawn e" and t: "\<not> ?t" by blast
    have 1: "\<forall>p c a d. Spawn p c a d \<in> set effs \<longrightarrow>
               p = next_pid w \<and> c = ?c \<and> a = ?a \<and> d = ?d"
      unfolding e using pre by force
    have 2: "Spawn (next_pid w) ?c ?a ?d \<in> set effs \<longleftrightarrow>
               \<not> snd (snd (resolve_command env (self w))) \<and> \<not> spawn_throws env ?c ?a ?d"
      unfolding e using t by simp
    have 3: "?t \<longrightarrow> w' = w \<and> filter is_spawn effs = []"
      using t by blast
    have 0: "commandArgs (self w') = commandArgs (self w)"
      using s by simp
    from 0 1 2 3 show ?thesis by (intro conjI)
  next
    assume a: "w' = w \<and> (\<forall>e\<in>set effs. \<not> is_spawn e) \<and> ?t"
    then have none: "\<forall>e\<in>set effs. \<not> is_spawn e" and t: ?t and w: "w' = w"
      by blast+
    have 1: "\<forall>p c a d. Spawn p c a d \<in> set effs \<longrightarrow>
               p = next_pid w \<and> c = ?c \<and> a = ?a \<and> d = ?d"
      using none by force
    have "Spawn (next_pid w) ?c ?a ?d \<notin> set effs"
      using none by force
    then have 2: "Spawn (next_pid w) ?c ?a ?d \<in> set effs \<longleftrightarrow>
               \<not> snd (snd (resolve_command env (self w))) \<and> \<not> spawn_throws env ?c ?a ?d"
      using t by blast
    have "filter is_spawn effs = []"
      using none by (simp add: filter_empty_conv)
    then have 3: "?t \<longrightarrow> w' = w \<and> filter is_spawn effs = []"
      using w by simp
    have 0: "commandArgs (self w') = commandArgs (self w)"
      using s by simp
    from 0 1 2 3 show ?thesis by (intro conjI)
  qed
qed

theorem spawn_arguments_witness:
  "commandArgs (self (fst (start_run posix_env (init_world sample_cfg) sample_file True NotifyMessage)))
     = [''-inc''] \<and>
   spec_args posix_env [''-inc''] sample_file True = [''-inc'', ''-merge'', ''main.tex''] \<and>
   \<not> snd (snd (resolve_command posix_env (self (init_world sample_cfg)))) \<and>
   \<not> spawn_throws posix_env ''texcount'' [''-inc'', ''-merge'', ''main.tex''] ''/home/u/doc'' \<and>
   Spawn 0 ''texcount'' [''-inc'', ''-merge'', ''main.tex''] ''/home/u/doc''
     \<in> set (snd (start_run posix_env (init_world sample_cfg) sample_file True NotifyMessage)) \<and>
   spawn_throws posix_env [] [''-inc'', ''-merge'', ''main.tex''] ''/home/u/doc'' \<and>
   filter is_spawn
     (snd (start_run posix_env (init_world nopath_cfg) sample_file True NotifyMessage)) = [] \<and>
   fst (start_run posix_env (init_world nopath_cfg) sample_file True NotifyMessage)
     = init_world nopath_cfg"
proof -
  have st: "start_run posix_env (init_world sample_cfg) sample_file True NotifyMessage =
     (fst (start_run posix_env (init_world sample_cfg) sample_file True NotifyMessage),
      snd (start_run posix_env (init_world sample_cfg) sample_file True NotifyMessage))"
    by simp
  have st': "start_run posix_env (init_world nopath_cfg) sample_file True NotifyMessage =
     (fst (start_run posix_env (init_world nopath_cfg) sample_file True NotifyMessage),
      snd (start_run posix_env (init_world nopath_cfg) sample_file True NotifyMessage))"
    by simp
  have rc: "resolve_command posix_env (self (init_world sample_cfg)) = (''texcount'', [], False)"
    by (simp add: resolve_command_def init_sample)
  have rc': "resolve_command posix_env (self (init_world nopath_cfg)) = ([], [], False)"
    by (simp add: resolve_command_def init_nopath)
  have b: "spec_args posix_env [''-inc''] sample_file True = [''-inc'', ''-merge'', ''main.tex'']"
    by (simp add: spec_args_def sample_paths)
  have ok: "\<not> spawn_throws posix_env ''texcount'' [''-inc'', ''-merge'', ''main.tex''] ''/home/u/doc''"
    and ko: "spawn_throws posix_env [] [''-inc'', ''-merge'', ''main.tex''] ''/home/u/doc''"
    by (simp_all add: sample_spawn)
  have args: "commandArgs (self (init_world sample_cfg)) = [''-inc'']"
    "commandArgs (self (init_world nopath_cfg)) = [''-inc'']"
    by (simp_all add: init_sample init_nopath)
  show ?thesis
    using spawn_arguments [OF st] spawn_arguments [OF st'] rc rc' b ok ko
    by (simp add: args sample_paths init_next_pid)
qed

subsection \<open>The exit handler\<close>

text \<open>
  C5. When a running child exits with a code other than 0, in a world reached from the
  constructor: the error is logged and the error notification is shown, the stored word
  count and message are as before, and the promise of that run is not resolved then nor
  by any later sequence of events.
\<close>

theorem nonzero_exit:
  assumes reach: "w = run env (init_world cfg) es0"
    and live: "procs w p = Some pr"
    and code: "exitCode \<noteq> Some 0"
    and st: "step env w (ProcExit p exitCode) = (w', effs)"
  shows "ShowErrorMessage failed_message \<in> set effs \<and>
         LogError ''Cannot count words'' (ExitCode exitCode) (p_stderr pr) \<in> set effs \<and>
         wordCount (self w') = wordCount (self w) \<and>
         texCountMessage (self w') = texCountMessage (self w) \<and>
         (\<forall>es. p \<notin> resolved (run env w' es))"
proof -
  have ex: "on_exit (self w) (p_merge pr) exitCode (p_stdout pr) (p_stderr pr) =
              (self w, [LogError ''Cannot count words'' (ExitCode exitCode) (p_stderr pr),
                        ShowErrorMessage failed_message], False)"
    using code by (simp add: on_exit_def)
  have pe: "proc_exit w p exitCode = (w', effs)"
    using st by simp
  have w': "w' = w\<lparr> self := self w, procs := (procs w)(p := None) \<rparr>"
    and effs: "effs = [LogError ''Cannot count words'' (ExitCode exitCode) (p_stderr pr),
                       ShowErrorMessage failed_message]"
    using pe live ex by (simp_all add: proc_exit_def)
  have "pids_ok w"
    unfolding reach by (rule reachable_pids_ok)
  then have "gone p w'"
    using live pe by (rule exit_unresolved_gone) (simp add: ex)
  then have "\<forall>es. gone p (run env w' es)"
    by (simp add: run_gone)
  then have never: "\<forall>es. p \<notin> resolved (run env w' es)"
    by (simp add: gone_def)
  show ?thesis
    using never by (simp add: effs w')
qed

theorem nonzero_exit_witness:
  "procs counting 0 =
     Some \<lparr> p_merge = False, p_cont = NotifyMessage, p_stdout = [], p_stderr = [] \<rparr> \<and>
   Some (1::int) \<noteq> Some 0 \<and>
   ShowErrorMessage failed_message \<in> set (snd (step posix_env counting (ProcExit 0 (Some 1)))) \<and>
   LogError ''Cannot count words'' (ExitCode (Some 1)) []
     \<in> set (snd (step posix_env counting (ProcExit 0 (Some 1)))) \<and>
   wordCount (self (fst (step posix_env counting (ProcExit 0 (Some 1))))) = [] \<and>
   0 \<notin> resolved (run posix_env (fst (step posix_env counting (ProcExit 0 (Some 1))))
                   [ProcExit 0 (Some 0)])"
proof -
  have live: "procs counting 0 =
     Some \<lparr> p_merge = False, p_cont = NotifyMessage, p_stdout = [], p_stderr = [] \<rparr>"
    by (simp add: counting_eval)
  have code: "Some (1::int) \<noteq> Some 0" by simp
  have st: "step posix_env counting (ProcExit 0 (Some 1)) =
              (fst (step posix_env counting (ProcExit 0 (Some 1))),
               snd (step posix_env counting (ProcExit 0 (Some 1))))"
    by simp
  show ?thesis
    using nonzero_exit [OF counting_def live code st] live
    by (simp add: counting_eval init_fields del: run.simps step.simps)
qed

text \<open>
  C6. When a running child exits with code 0 and its output does not match the word
  pattern, in a world reached from the constructor: nothing is logged and nothing is
  shown, the stored word count and message are as before, and the promise of that run
  is not resolved then nor by any later sequence of events.
\<close>

theorem unparseable_exit:
  assumes reach: "w = run env (init_world cfg) es0"
    and live: "procs w p = Some pr"
    and nomatch: "exec_words (p_stdout pr) = None"
    and st: "step env w (ProcExit p (Some 0)) = (w', effs)"
  shows "effs = [] \<and>
         wordCount (self w') = wordCount (self w) \<and>
         texCountMessage (self w') = texCountMessage (self w) \<and>
         (\<forall>es. p \<notin> resolved (run env w' es))"
proof -
  have ex: "on_exit (self w) (p_merge pr) (Some 0) (p_stdout pr) (p_stderr pr) = (self w, [], False)"
    using nomatch by (simp add: on_exit_def)
  have pe: "proc_exit w p (Some 0) = (w', effs)"
    using st by simp
  have w': "w' = w\<lparr> self := self w, procs := (procs w)(p := None) \<rparr>" and effs: "effs = []"
    using pe live ex by (simp_all add: proc_exit_def)
  have "pids_ok w"
    unfolding reach by (rule reachable_pids_ok)
  then have "gone p w'"
    using live pe by (rule exit_unresolved_gone) (simp add: ex)
  then have "\<forall>es. gone p (run env w' es)"
    by (simp add: run_gone)
  then have never: "\<forall>es. p \<notin> resolved (run env w' es)"
    by (simp add: gone_def)
  show ?thesis
    using never by (simp add: effs w')
qed

theorem unparseable_exit_witness:
  "procs silent 0 =
     Some \<lparr> p_merge = False, p_cont = NotifyMessage, p_stdout = ''File: main.tex'', p_stderr = [] \<rparr> \<and>
   exec_words ''File: main.tex'' = None \<and>
   snd (step posix_env silent (ProcExit 0 (Some 0))) = [] \<and>
   wordCount (self (fst (step posix_env silent (ProcExit 0 (Some 0))))) = [] \<and>
   0 \<notin> resolved (run posix_env (fst (step posix_env silent (ProcExit 0 (Some 0))))
                   [ProcExit 0 (Some 0)])"
proof -
  have live: "procs silent 0 =
     Some \<lparr> p_merge = False, p_cont = NotifyMessage, p_stdout = ''File: main.tex'', p_stderr = [] \<rparr>"
    by (simp add: silent_eval)
  have nomatch: "exec_words ''File: main.tex'' = None"
    by (simp add: exec_words_def words_literal_def)
  have st: "step posix_env silent (ProcExit 0 (Some 0)) =
              (fst (step posix_env silent (ProcExit 0 (Some 0))),
               snd (step posix_env silent (ProcExit 0 (Some 0))))"
    by simp
  show ?thesis
    using unparseable_exit [OF silent_reach live _ st] live nomatch
    by (simp add: silent_eval init_fields del: run.simps step.simps)
qed

text \<open>
  C10. The group of the word pattern may be empty: on an output that starts with
  \<open>Words in text: \<close> followed by no digit, an exit with code 0 resolves the promise,
  stores the empty string as word count and a message that begins
  \<open>There are  words\<close>.
\<close>

theorem empty_count_resolves:
  assumes "rest = [] \<or> \<not> is_digit (hd rest)"
  shows "on_exit st merge (Some 0) (''Words in text: '' @ rest) stderr =
           (st\<lparr> wordCount := [],
               texCountMessage := ''There are  words ''
                 @ float_msg (exec_floats (''Words in text: '' @ rest)) @ ''in the ''
                 @ (if merge then ''LaTeX project'' else ''opened LaTeX file'') @ ''.'' \<rparr>,
            [], True)"
proof -
  have "exec_words (''Words in text: '' @ rest) = Some []"
    unfolding exec_words_def words_literal_def
    using regex_exec_at_start [of "''Words in text: ''" rest] takeWhile_no_digit [OF assms]
    by simp
  then show ?thesis
    by (simp add: on_exit_def build_message_def)
qed

theorem empty_count_resolves_witness:
  "on_exit new_counter True (Some 0) ''Words in text: '' [] =
     (new_counter\<lparr> wordCount := [],
        texCountMessage := ''There are  words in the LaTeX project.'' \<rparr>, [], True)"
  using empty_count_resolves [of "[]" new_counter True "[]"]
  by (simp add: float_msg_def exec_floats_def floats_literal_def)

text \<open>
  C7. Whatever the event, either the stored word count and the stored message are both
  as before, or the event is the exit with code 0 of a running child whose output
  matches the word pattern, and both are set from that one output.
\<close>

theorem results_updated_together:
  assumes "step env w e = (w', effs)"
  shows "(wordCount (self w') = wordCount (self w) \<and>
          texCountMessage (self w') = texCountMessage (self w)) \<or>
         (\<exists>p pr wd. e = ProcExit p (Some 0) \<and> procs w p = Some pr \<and>
            exec_words (p_stdout pr) = Some wd \<and>
            wordCount (self w') = wd \<and>
            texCountMessage (self w') =
              build_message wd (exec_floats (p_stdout pr)) (p_merge pr))"
proof (cases e)
  case (ConfigChange a cfg)
  with assms show ?thesis
    by (auto simp: updateStatusVisibility_def loadConfiguration_def status_show_def
        status_hide_def updateWordCount_def split: if_splits)
next
  case (EditorChange ed)
  with assms show ?thesis
    by (auto simp: updateStatusVisibility_def loadConfiguration_def status_show_def
        status_hide_def updateWordCount_def split: if_splits option.splits bool.splits)
next
  case (Save fl)
  with assms have a: "countOnSaveIfEnabled env w fl = (w', effs)" by simp
  show ?thesis
  proof (cases "\<not> autoRunEnabled (self w) \<or> disableCountAfterSave (self w)")
    case True
    with a have "w' = w" by (auto simp: countOnSaveIfEnabled_def split: if_splits)
    then show ?thesis by simp
  next
    case False
    define w2 where "w2 = w\<lparr> self := (self w)\<lparr> disableCountAfterSave := True \<rparr>,
                            timers := timers w @ [autoRunInterval (self w)] \<rparr>"
    obtain w3 effs3 where r: "start_run env w2 fl True RefreshStatus = (w3, effs3)"
      by (cases "start_run env w2 fl True RefreshStatus")
    from a False r have "w' = w3"
      by (simp add: countOnSaveIfEnabled_def Let_def w2_def)
    moreover have "self w3 = self w2" using start_run_no_flag [OF r] by simp
    ultimately show ?thesis by (simp add: w2_def)
  qed
next
  case (Count fl merge)
  with assms have "start_run env w fl merge NotifyMessage = (w', effs)"
    by (simp add: count_def)
  from start_run_no_flag [OF this] show ?thesis by simp
next
  case (ProcStdout q chunk)
  with assms show ?thesis by (auto split: option.splits)
next
  case (ProcStderr q chunk)
  with assms show ?thesis by (auto split: option.splits)
next
  case (ProcError q err)
  with assms show ?thesis by (auto simp: on_error_def split: option.splits)
next
  case (ProcExit q ec)
  with assms have pe: "proc_exit w q ec = (w', effs)" by simp
  show ?thesis
  proof (cases "procs w q")
    case None
    with pe have "w' = w" by (simp add: proc_exit_def)
    then show ?thesis by simp
  next
    case (Some pr)
    show ?thesis
    proof (cases "ec = Some 0 \<and> exec_words (p_stdout pr) \<noteq> None")
      case True
      then obtain wd where wd: "exec_words (p_stdout pr) = Some wd" and ec: "ec = Some 0"
        by auto
      from pe Some wd ec have
        "wordCount (self w') = wd"
        "texCountMessage (self w') = build_message wd (exec_floats (p_stdout pr)) (p_merge pr)"
        by (auto simp: proc_exit_def on_exit_def run_continuation_def updateWordCount_def
            split: continuation.splits if_splits)
      with Some wd ec ProcExit show ?thesis by blast
    next
      case False
      with pe Some have "self w' = self w"
        by (auto simp: proc_exit_def on_exit_def split: option.splits if_splits)
      then show ?thesis by simp
    qed
  qed
next
  case (TimerFire i)
  with assms show ?thesis by (auto split: if_splits)
qed

theorem results_updated_together_witness:
  "wordCount (self printed) = [] \<and> texCountMessage (self printed) = [] \<and>
   procs printed 0 =
     Some \<lparr> p_merge = False, p_cont = NotifyMessage, p_stdout = sample_stdout, p_stderr = [] \<rparr> \<and>
   exec_words sample_stdout = Some ''100'' \<and>
   wordCount (self (fst (step posix_env printed (ProcExit 0 (Some 0))))) = ''100'' \<and>
   texCountMessage (self (fst (step posix_env printed (ProcExit 0 (Some 0))))) = sample_message"
  using results_updated_together [OF printed_exit] sample_words
  by (simp add: printed_exit printed_eval init_fields del: step.simps)

subsection \<open>Auto-run\<close>

text \<open>
  C3, as stated, fails: with auto-run enabled \<open>updateStatusVisibility\<close> does not run
  a count. It spawns no process and leaves the stored word count as it is; a change of
  the configuration with auto-run enabled starts no process.
\<close>

theorem updateStatusVisibility_no_count:
  "autoRunEnabled autorun_counter \<and>
   filter is_spawn (snd (updateStatusVisibility autorun_counter)) = [] \<and>
   wordCount (fst (updateStatusVisibility autorun_counter)) = wordCount autorun_counter \<and>
   snd (step posix_env (init_world sample_cfg) (ConfigChange True sample_cfg)) = [] \<and>
   next_pid (fst (step posix_env (init_world sample_cfg) (ConfigChange True sample_cfg))) = 0"
  by (simp add: autorun_counter_def updateStatusVisibility_def loadConfiguration_def
      sample_cfg_def new_counter_def updateWordCount_def status_show_def init_world_def)

text \<open>
  C3, amended. If auto-run is enabled, \<open>updateStatusVisibility\<close> refreshes the text
  and tooltip of the status item from the stored word count and message
  (\<open>updateWordCount\<close>), with no effect on the outside, and shows the item; if auto-run
  is disabled it hides the item; and a save while auto-run is disabled changes nothing
  and spawns nothing.
\<close>

theorem updateStatusVisibility_refreshes:
  "(autoRunEnabled st \<longrightarrow>
      updateStatusVisibility st = (status_show (updateWordCount st), []) \<and>
      status_visible (status (fst (updateStatusVisibility st)))) \<and>
   (\<not> autoRunEnabled st \<longrightarrow>
      updateStatusVisibility st = (status_hide st, []) \<and>
      \<not> status_visible (status (fst (updateStatusVisibility st)))) \<and>
   (\<not> autoRunEnabled (self w) \<longrightarrow> countOnSaveIfEnabled env w file = (w, []))"
  by (simp add: updateStatusVisibility_def status_show_def status_hide_def
      countOnSaveIfEnabled_def)

theorem updateStatusVisibility_refreshes_witness:
  "autoRunEnabled autorun_counter \<and>
   updateStatusVisibility autorun_counter = (status_show (updateWordCount autorun_counter), []) \<and>
   \<not> autoRunEnabled new_counter \<and>
   \<not> status_visible (status (fst (updateStatusVisibility new_counter))) \<and>
   \<not> autoRunEnabled (self (init_world manual_cfg)) \<and>
   snd (countOnSaveIfEnabled posix_env (init_world manual_cfg) sample_file) = []"
  using updateStatusVisibility_refreshes [of autorun_counter "init_world manual_cfg" posix_env sample_file]
    updateStatusVisibility_refreshes [of new_counter "init_world manual_cfg" posix_env sample_file]
  by (simp add: autorun_counter_def loadConfiguration_def sample_cfg_def new_counter_def
      manual_cfg_def init_world_def updateStatusVisibility_def status_hide_def)

text \<open>
  C4. A save that arrives while \<open>disableCountAfterSave\<close> is set leaves the world as
  it is and spawns nothing; all it emits is the log line (given auto-run is enabled).
  A save that starts a count sets the flag and registers the timer with the configured
  interval before \<open>runTeXCount\<close> is entered. The flag stays set under every event that
  is not the timer, and the timer clears it whatever the state of the child processes.
\<close>

theorem save_debounce:
  "(disableCountAfterSave (self w) \<longrightarrow>
      fst (countOnSaveIfEnabled env w file) = w \<and>
      filter is_spawn (snd (countOnSaveIfEnabled env w file)) = [] \<and>
      (\<forall>e\<in>set (snd (countOnSaveIfEnabled env w file)). is_log e) \<and>
      (autoRunEnabled (self w) \<longrightarrow>
         snd (countOnSaveIfEnabled env w file) =
           [Log ''Auto texcount is temporarily disabled during a second.''])) \<and>
   (autoRunEnabled (self w) \<and> \<not> disableCountAfterSave (self w) \<longrightarrow>
      countOnSaveIfEnabled env w file =
        (fst (start_run env
               (w\<lparr> self := (self w)\<lparr> disableCountAfterSave := True \<rparr>,
                   timers := timers w @ [autoRunInterval (self w)] \<rparr>) file True RefreshStatus),
         [Log (''Auto texcount started on saving file '' @ file @ '' .''),
          SetTimeout (autoRunInterval (self w))]
         @ snd (start_run env
               (w\<lparr> self := (self w)\<lparr> disableCountAfterSave := True \<rparr>,
                   timers := timers w @ [autoRunInterval (self w)] \<rparr>) file True RefreshStatus)) \<and>
      disableCountAfterSave (self (fst (countOnSaveIfEnabled env w file))) \<and>
      timers (fst (countOnSaveIfEnabled env w file)) = timers w @ [autoRunInterval (self w)]) \<and>
   (disableCountAfterSave (self w) \<and> \<not> is_timer e \<longrightarrow>
      disableCountAfterSave (self (fst (step env w e))) \<and>
      timers (fst (step env w e)) = timers w) \<and>
   (i < length (timers w) \<longrightarrow>
      \<not> disableCountAfterSave (self (fst (step env w (TimerFire i)))) \<and>
      procs (fst (step env w (TimerFire i))) = procs w \<and>
      resolved (fst (step env w (TimerFire i))) = resolved w \<and>
      timers (fst (step env w (TimerFire i))) = remove_nth i (timers w))"
proof -
  have a: "disableCountAfterSave (self w) \<longrightarrow>
      fst (countOnSaveIfEnabled env w file) = w \<and>
      filter is_spawn (snd (countOnSaveIfEnabled env w file)) = [] \<and>
      (\<forall>e\<in>set (snd (countOnSaveIfEnabled env w file)). is_log e) \<and>
      (autoRunEnabled (self w) \<longrightarrow>
         snd (countOnSaveIfEnabled env w file) =
           [Log ''Auto texcount is temporarily disabled during a second.''])"
    by (simp add: countOnSaveIfEnabled_def)
  define w2 where "w2 = w\<lparr> self := (self w)\<lparr> disableCountAfterSave := True \<rparr>,
                         timers := timers w @ [autoRunInterval (self w)] \<rparr>"
  obtain w3 effs3 where r: "start_run env w2 file True RefreshStatus = (w3, effs3)"
    by (cases "start_run env w2 file True RefreshStatus")
  have w3: "self w3 = self w2" "timers w3 = timers w2"
    using start_run_no_flag [OF r] by simp_all
  have b: "autoRunEnabled (self w) \<and> \<not> disableCountAfterSave (self w) \<longrightarrow>
      countOnSaveIfEnabled env w file =
        (fst (start_run env w2 file True RefreshStatus),
         [Log (''Auto texcount started on saving file '' @ file @ '' .''),
          SetTimeout (autoRunInterval (self w))]
         @ snd (start_run env w2 file True RefreshStatus)) \<and>
      disableCountAfterSave (self (fst (countOnSaveIfEnabled env w file))) \<and>
      timers (fst (countOnSaveIfEnabled env w file)) = timers w @ [autoRunInterval (self w)]"
    using w3 by (simp add: countOnSaveIfEnabled_def Let_def w2_def [symmetric] r)
       (simp add: w2_def)
  have c: "disableCountAfterSave (self w) \<and> \<not> is_timer e \<longrightarrow>
      disableCountAfterSave (self (fst (step env w e))) \<and>
      timers (fst (step env w e)) = timers w"
  proof (cases e)
    case (Count fl merge)
    obtain w' effs where s: "start_run env w fl merge NotifyMessage = (w', effs)"
      by (cases "start_run env w fl merge NotifyMessage")
    from start_run_no_flag [OF s] show ?thesis
      by (simp add: Count count_def s)
  next
    case (ProcExit q ec)
    show ?thesis
      by (simp add: ProcExit proc_exit_def on_exit_def run_continuation_def updateWordCount_def
          split: option.splits continuation.splits)
  qed (simp_all add: countOnSaveIfEnabled_def updateStatusVisibility_def loadConfiguration_def
        status_show_def status_hide_def updateWordCount_def on_error_def
        split: option.splits bool.splits prod.splits)
  have d: "i < length (timers w) \<longrightarrow>
      \<not> disableCountAfterSave (self (fst (step env w (TimerFire i)))) \<and>
      procs (fst (step env w (TimerFire i))) = procs w \<and>
      resolved (fst (step env w (TimerFire i))) = resolved w \<and>
      timers (fst (step env w (TimerFire i))) = remove_nth i (timers w)"
    by simp
  show ?thesis
    using a b c d unfolding w2_def by blast
qed

theorem save_debounce_witness:
  "autoRunEnabled (self (init_world sample_cfg)) \<and>
   \<not> disableCountAfterSave (self (init_world sample_cfg)) \<and>
   disableCountAfterSave (self saved) \<and> timers saved = [1000] \<and>
   fst (countOnSaveIfEnabled posix_env saved sample_file) = saved \<and>
   snd (countOnSaveIfEnabled posix_env saved sample_file) =
     [Log ''Auto texcount is temporarily disabled during a second.''] \<and>
   \<not> is_timer (ProcExit 0 (Some 1)) \<and>
   disableCountAfterSave (self (fst (step posix_env saved (ProcExit 0 (Some 1))))) \<and>
   0 < length (timers saved) \<and>
   \<not> disableCountAfterSave (self (fst (step posix_env saved (TimerFire 0)))) \<and>
   procs (fst (step posix_env saved (TimerFire 0))) = procs saved"
proof -
  have h: "autoRunEnabled (self (init_world sample_cfg))"
    "\<not> disableCountAfterSave (self (init_world sample_cfg))"
    "disableCountAfterSave (self saved)" "autoRunEnabled (self saved)"
    "timers saved = [1000]" "\<not> is_timer (ProcExit 0 (Some 1))"
    by (simp_all add: init_sample saved_eval)
  show ?thesis
    using save_debounce [of saved posix_env sample_file "ProcExit 0 (Some 1)" 0] h
    by (simp del: step.simps)
qed

end
